theory Spec2Isabelle
  imports Complex_Main "HOL-Library.Char_ord" "HOL-Library.List_Lexorder" "HOL-Library.Product_Lexorder"
begin

section \<open>task.go: the task value and its lifecycle operations\<close>

text \<open>
  \<^verbatim>\<open>type Priority int\<close> with the four constants \<^verbatim>\<open>PriorityLow .. PriorityCritical\<close>
  (\<^verbatim>\<open>iota\<close>, so 0..3). The Go type admits every integer, and so does the model.
\<close>

type_synonym Priority = int

definition PriorityLow :: Priority where "PriorityLow = 0"
definition PriorityMedium :: Priority where "PriorityMedium = 1"
definition PriorityHigh :: Priority where "PriorityHigh = 2"
definition PriorityCritical :: Priority where "PriorityCritical = 3"

text \<open>\<^verbatim>\<open>type Status string\<close>: an open string type with five named constants.\<close>

type_synonym Status = string

definition StatusPending :: Status where "StatusPending = ''pending''"
definition StatusProcessing :: Status where "StatusProcessing = ''processing''"
definition StatusCompleted :: Status where "StatusCompleted = ''completed''"
definition StatusFailed :: Status where "StatusFailed = ''failed''"
definition StatusRetrying :: Status where "StatusRetrying = ''retrying''"

text \<open>
  \<^verbatim>\<open>time.Time\<close> is modelled by the instant it denotes, in nanoseconds since the Unix epoch;
  \<^verbatim>\<open>Unix()\<close> is the number of whole seconds.
\<close>

type_synonym Time = int

definition Unix :: "Time \<Rightarrow> int" where
  "Unix t = t div 1000000000"

text \<open>
  The \<^verbatim>\<open>Task\<close> struct. The payload (\<^verbatim>\<open>map[string]interface{}\<close>) is never inspected by the
  engine and is a type parameter. \<^verbatim>\<open>MaxRetries\<close> and \<^verbatim>\<open>RetryCount\<close> are Go \<^verbatim>\<open>int\<close>s; the only
  arithmetic on them is \<^verbatim>\<open>RetryCount++\<close>, modelled on \<open>int\<close>. The nil pointers
  \<^verbatim>\<open>StartedAt\<close> and \<^verbatim>\<open>CompletedAt\<close> are \<open>None\<close>.
\<close>

record 'p Task =
  ID :: string
  Type :: string
  Priority :: Priority
  Status :: Status
  Payload :: 'p
  MaxRetries :: int
  RetryCount :: int
  CreatedAt :: Time
  StartedAt :: "Time option"
  CompletedAt :: "Time option"
  Error :: string
  WorkerID :: string

text \<open>
  \<^verbatim>\<open>NewTask\<close>: the two impure reads, \<^verbatim>\<open>uuid.New().String()\<close> and \<^verbatim>\<open>time.Now()\<close>, are the first
  two arguments. Fields the struct literal leaves out take Go's zero values.
\<close>

definition NewTask :: "string \<Rightarrow> Time \<Rightarrow> string \<Rightarrow> Priority \<Rightarrow> 'p \<Rightarrow> 'p Task" where
  "NewTask uuid now taskType priority payload =
     \<lparr> ID = uuid, Type = taskType, Priority = priority, Status = StatusPending,
       Payload = payload, MaxRetries = 3, RetryCount = 0, CreatedAt = now,
       StartedAt = None, CompletedAt = None, Error = [], WorkerID = [] \<rparr>"

definition CanRetry :: "'p Task \<Rightarrow> bool" where
  "CanRetry t \<longleftrightarrow> RetryCount t < MaxRetries t"

definition MarkStarted :: "Time \<Rightarrow> string \<Rightarrow> 'p Task \<Rightarrow> 'p Task" where
  "MarkStarted now workerID t =
     t\<lparr> Status := StatusProcessing, StartedAt := Some now, WorkerID := workerID \<rparr>"

definition MarkCompleted :: "Time \<Rightarrow> 'p Task \<Rightarrow> 'p Task" where
  "MarkCompleted now t = t\<lparr> Status := StatusCompleted, CompletedAt := Some now \<rparr>"

definition MarkFailed :: "Time \<Rightarrow> string \<Rightarrow> 'p Task \<Rightarrow> 'p Task" where
  "MarkFailed now err t =
     t\<lparr> Status := StatusFailed, Error := err, CompletedAt := Some now \<rparr>"

definition MarkRetrying :: "'p Task \<Rightarrow> 'p Task" where
  "MarkRetrying t = t\<lparr> Status := StatusRetrying, RetryCount := RetryCount t + 1 \<rparr>"

section \<open>storage.go: the in-memory store\<close>

text \<open>
  \<^verbatim>\<open>MemoryStorage\<close> holds one Go map from id to task. \<^verbatim>\<open>SaveTask\<close> stores a copy of its
  argument obtained by a JSON round trip; records are values here and the payload is opaque
  to the store, so the copy is the record itself (what the round trip does to a payload is
  the subject of the section on the wire form). Each method returns
  its \<^verbatim>\<open>error\<close> result (\<open>None\<close> for \<^verbatim>\<open>nil\<close>) beside the updated store.
\<close>

record 'p MemoryStorage =
  tasks :: "string \<rightharpoonup> 'p Task"

definition NewMemoryStorage :: "'p MemoryStorage" where
  "NewMemoryStorage = \<lparr> tasks = Map.empty \<rparr>"

definition MemoryStorage_SaveTask ::
  "'p MemoryStorage \<Rightarrow> 'p Task \<Rightarrow> string option \<times> 'p MemoryStorage" where
  "MemoryStorage_SaveTask m t = (None, m\<lparr> tasks := (tasks m)(ID t \<mapsto> t) \<rparr>)"

definition MemoryStorage_GetTask :: "'p MemoryStorage \<Rightarrow> string \<Rightarrow> string + 'p Task" where
  "MemoryStorage_GetTask m ident =
     (case tasks m ident of
        None \<Rightarrow> Inl (''task not found: '' @ ident)
      | Some t \<Rightarrow> Inr t)"

definition MemoryStorage_UpdateTask ::
  "'p MemoryStorage \<Rightarrow> 'p Task \<Rightarrow> string option \<times> 'p MemoryStorage" where
  "MemoryStorage_UpdateTask m t = MemoryStorage_SaveTask m t"

definition MemoryStorage_DeleteTask ::
  "'p MemoryStorage \<Rightarrow> string \<Rightarrow> string option \<times> 'p MemoryStorage" where
  "MemoryStorage_DeleteTask m ident = (None, m\<lparr> tasks := (tasks m)(ident := None) \<rparr>)"

text \<open>
  \<^verbatim>\<open>GetTasksByStatus\<close> ranges over the Go map. Go leaves the iteration order of a map
  unspecified, so the order in which the keys are visited is an argument: \<open>visit\<close> lists the
  keys as the runtime happens to yield them (a duplicate-free enumeration of the map's keys;
  a key that is not in the map yields nothing). The loop body appends a matching task and
  only then compares the length with \<open>limit\<close>.
\<close>

fun rangeByStatus :: "'p Task list \<Rightarrow> Status \<Rightarrow> int \<Rightarrow> 'p Task list \<Rightarrow> 'p Task list" where
  "rangeByStatus [] status limit acc = acc"
| "rangeByStatus (t # rest) status limit acc =
     (if Status t = status then
        (if limit \<le> int (length (acc @ [t])) then acc @ [t]
         else rangeByStatus rest status limit (acc @ [t]))
      else rangeByStatus rest status limit acc)"

definition MemoryStorage_GetTasksByStatus ::
  "'p MemoryStorage \<Rightarrow> string list \<Rightarrow> Status \<Rightarrow> int \<Rightarrow> 'p Task list \<times> string option" where
  "MemoryStorage_GetTasksByStatus m visit status limit =
     (rangeByStatus (List.map_filter (tasks m) visit) status limit [], None)"

definition iteration_of :: "'p MemoryStorage \<Rightarrow> string list \<Rightarrow> bool" where
  "iteration_of m visit \<longleftrightarrow> distinct visit \<and> set visit = dom (tasks m)"

section \<open>storage.go: the Redis store\<close>

text \<open>
  The Redis server behind \<^verbatim>\<open>RedisStorage\<close>, as far as the commands used reach: string keys
  holding task blobs, and sorted sets. A blob is represented by the task it encodes. A sorted
  set is a list of (member, score) pairs with distinct members; a key without a sorted set is
  the empty list. The score \<^verbatim>\<open>float64(Priority)*1000000 + float64(CreatedAt.Unix())\<close> is an
  integer-valued float, exact below \<open>2^53\<close>, and is kept as an integer. \<open>alive\<close> tells whether
  commands reach the server; when they do not, every command of a call fails. Expiry of the
  24 hour TTL is not modelled, but a sorted set may name ids without a blob, which is the
  state expiry leaves.
\<close>

record 'p Redis =
  alive :: bool
  blobs :: "string \<rightharpoonup> 'p Task"
  zsets :: "string \<Rightarrow> (string \<times> int) list"

definition ZAdd :: "(string \<times> int) list \<Rightarrow> int \<Rightarrow> string \<Rightarrow> (string \<times> int) list" where
  "ZAdd z score member = (member, score) # filter (\<lambda>e. fst e \<noteq> member) z"

definition ZRem :: "(string \<times> int) list \<Rightarrow> string \<Rightarrow> (string \<times> int) list" where
  "ZRem z member = filter (\<lambda>e. fst e \<noteq> member) z"

text \<open>
  \<^verbatim>\<open>ZREVRANGE key start stop\<close>: members from the highest score to the lowest (equal scores in
  descending lexicographic order of the member), both indices inclusive, a negative index
  counting from the end, indices beyond the end clipped.
\<close>

definition ZRevRange :: "(string \<times> int) list \<Rightarrow> int \<Rightarrow> int \<Rightarrow> string list" where
  "ZRevRange z start stop =
     (let desc = rev (sort_key (\<lambda>e. (snd e, fst e)) z);
          n = int (length desc);
          lo = (if start < 0 then max 0 (n + start) else start);
          hi = min (if stop < 0 then n + stop else stop) (n - 1)
      in if hi < lo then [] else map fst (take (nat (hi - lo + 1)) (drop (nat lo) desc)))"

definition taskKey :: "string \<Rightarrow> string" where
  "taskKey ident = ''task:'' @ ident"

definition statusKey :: "Status \<Rightarrow> string" where
  "statusKey status = ''tasks:status:'' @ status"

definition schedScore :: "'p Task \<Rightarrow> int" where
  "schedScore t = Priority t * 1000000 + Unix (CreatedAt t)"

definition RedisStorage_SaveTask :: "'p Redis \<Rightarrow> 'p Task \<Rightarrow> string option \<times> 'p Redis" where
  "RedisStorage_SaveTask r t =
     (if \<not> alive r then (Some ''failed to save task'', r)
      else (None, r\<lparr> blobs := (blobs r)(taskKey (ID t) \<mapsto> t),
                      zsets := (zsets r)(statusKey (Status t) :=
                                 ZAdd (zsets r (statusKey (Status t))) (schedScore t) (ID t)) \<rparr>))"

definition RedisStorage_GetTask :: "'p Redis \<Rightarrow> string \<Rightarrow> string + 'p Task" where
  "RedisStorage_GetTask r ident =
     (if \<not> alive r then Inl ''failed to get task''
      else case blobs r (taskKey ident) of
             None \<Rightarrow> Inl (''task not found: '' @ ident)
           | Some t \<Rightarrow> Inr t)"

definition RedisStorage_UpdateTask :: "'p Redis \<Rightarrow> 'p Task \<Rightarrow> string option \<times> 'p Redis" where
  "RedisStorage_UpdateTask r t =
     (case RedisStorage_GetTask r (ID t) of
        Inl err \<Rightarrow> (Some err, r)
      | Inr oldTask \<Rightarrow>
          RedisStorage_SaveTask
            (if Status oldTask \<noteq> Status t
             then r\<lparr> zsets := (zsets r)(statusKey (Status oldTask) :=
                                  ZRem (zsets r (statusKey (Status oldTask))) (ID t)) \<rparr>
             else r) t)"

definition RedisStorage_DeleteTask :: "'p Redis \<Rightarrow> string \<Rightarrow> string option \<times> 'p Redis" where
  "RedisStorage_DeleteTask r ident =
     (case RedisStorage_GetTask r ident of
        Inl err \<Rightarrow> (Some err, r)
      | Inr t \<Rightarrow>
          (None, r\<lparr> blobs := (blobs r)(taskKey ident := None),
                    zsets := (zsets r)(statusKey (Status t) :=
                               ZRem (zsets r (statusKey (Status t))) ident) \<rparr>))"

definition RedisStorage_GetTasksByStatus ::
  "'p Redis \<Rightarrow> Status \<Rightarrow> int \<Rightarrow> string + 'p Task list" where
  "RedisStorage_GetTasksByStatus r status limit =
     (if \<not> alive r then Inl ''failed to get task IDs''
      else Inr (List.map_filter
                  (\<lambda>ident. case RedisStorage_GetTask r ident of Inl err \<Rightarrow> None | Inr t \<Rightarrow> Some t)
                  (ZRevRange (zsets r (statusKey status)) 0 (limit - 1))))"

section \<open>metrics.go: the package-level metrics\<close>

text \<open>
  The Prometheus vectors are package-level variables; they are threaded through the model
  beside the queue. A counter vector maps its label values to a count, the gauge vector
  \<^verbatim>\<open>queue_size\<close> maps its label to an integer (it is only ever changed by \<^verbatim>\<open>Inc\<close> and \<^verbatim>\<open>Dec\<close>).
  The priority label is \<^verbatim>\<open>fmt.Sprintf("%d", t.Priority)\<close>, the decimal rendering of the number,
  and is represented by the number. Of the duration histogram only the number of
  observations per type is kept.
\<close>

record Metrics =
  TasksSubmitted :: "string \<times> Priority \<Rightarrow> nat"
  TasksProcessed :: "string \<times> string \<Rightarrow> nat"
  TaskDuration :: "string \<Rightarrow> nat"
  QueueSize :: "Priority \<Rightarrow> int"
  WorkersActive :: int
  TaskRetries :: "string \<Rightarrow> nat"

definition zeroMetrics :: Metrics where
  "zeroMetrics = \<lparr> TasksSubmitted = (\<lambda>l. 0), TasksProcessed = (\<lambda>l. 0), TaskDuration = (\<lambda>l. 0),
                   QueueSize = (\<lambda>l. 0), WorkersActive = 0, TaskRetries = (\<lambda>l. 0) \<rparr>"

section \<open>queue.go: the dispatch engine\<close>

text \<open>
  A buffered Go channel is its capacity and the elements it holds, oldest first. A send in a
  \<^verbatim>\<open>select\<close> with a \<^verbatim>\<open>default\<close> branch succeeds when there is room and otherwise does
  nothing. \<^verbatim>\<open>q.taskChannels[p]\<close> for a priority without an entry is the nil channel, on which a
  send never proceeds.
\<close>

record 'a chan =
  cap :: nat
  buf :: "'a list"

definition makeChan :: "nat \<Rightarrow> 'a chan" where
  "makeChan n = \<lparr> cap = n, buf = [] \<rparr>"

definition canSend :: "(Priority \<rightharpoonup> 'a chan) \<Rightarrow> Priority \<Rightarrow> bool" where
  "canSend chans p = (case chans p of None \<Rightarrow> False | Some c \<Rightarrow> length (buf c) < cap c)"

definition send :: "(Priority \<rightharpoonup> 'a chan) \<Rightarrow> Priority \<Rightarrow> 'a \<Rightarrow> (Priority \<rightharpoonup> 'a chan)" where
  "send chans p x =
     (case chans p of None \<Rightarrow> chans | Some c \<Rightarrow> chans(p \<mapsto> c\<lparr> buf := buf c @ [x] \<rparr>))"

definition trySend :: "(Priority \<rightharpoonup> 'a chan) \<Rightarrow> Priority \<Rightarrow> 'a \<Rightarrow> (Priority \<rightharpoonup> 'a chan)" where
  "trySend chans p x = (if canSend chans p then send chans p x else chans)"

text \<open>
  A handler is a Go closure returning an \<^verbatim>\<open>error\<close>; \<open>None\<close> is \<^verbatim>\<open>nil\<close>, \<open>Some e\<close> an error
  whose \<^verbatim>\<open>Error()\<close> text is \<open>e\<close>. A closure may keep state between calls (the handlers of
  \<^verbatim>\<open>queue_test.go\<close> count their calls), so the handler is given the number of handler
  invocations made before this one. Handlers are taken to leave the task itself untouched.
\<close>

type_synonym 'p TaskHandler = "nat \<Rightarrow> 'p Task \<Rightarrow> string option"

text \<open>
  The queue, over the in-memory store (the store of the repository's own queue and server
  tests). \<open>metrics\<close> are the package-level metrics and \<open>handlerCalls\<close> counts the handler
  invocations made so far; the logger has no effect on the state and is left out.
\<close>

record 'p Queue =
  storage :: "'p MemoryStorage"
  handlers :: "string \<rightharpoonup> 'p TaskHandler"
  taskChannels :: "Priority \<rightharpoonup> 'p Task chan"
  metrics :: Metrics
  handlerCalls :: nat

definition NewQueue :: "'p MemoryStorage \<Rightarrow> Metrics \<Rightarrow> 'p Queue" where
  "NewQueue store ms =
     \<lparr> storage = store, handlers = Map.empty,
       taskChannels = [PriorityCritical \<mapsto> makeChan 100, PriorityHigh \<mapsto> makeChan 100,
                       PriorityMedium \<mapsto> makeChan 100, PriorityLow \<mapsto> makeChan 100],
       metrics = ms, handlerCalls = 0 \<rparr>"

definition RegisterHandler :: "'p Queue \<Rightarrow> string \<Rightarrow> 'p TaskHandler \<Rightarrow> 'p Queue" where
  "RegisterHandler q taskType handler = q\<lparr> handlers := (handlers q)(taskType \<mapsto> handler) \<rparr>"

definition incSubmitted :: "string \<Rightarrow> Priority \<Rightarrow> Metrics \<Rightarrow> Metrics" where
  "incSubmitted ty p ms =
     ms\<lparr> TasksSubmitted := (TasksSubmitted ms)((ty, p) := TasksSubmitted ms (ty, p) + 1) \<rparr>"

definition incProcessed :: "string \<Rightarrow> string \<Rightarrow> Metrics \<Rightarrow> Metrics" where
  "incProcessed ty st ms =
     ms\<lparr> TasksProcessed := (TasksProcessed ms)((ty, st) := TasksProcessed ms (ty, st) + 1) \<rparr>"

definition incRetries :: "string \<Rightarrow> Metrics \<Rightarrow> Metrics" where
  "incRetries ty ms = ms\<lparr> TaskRetries := (TaskRetries ms)(ty := TaskRetries ms ty + 1) \<rparr>"

definition observeDuration :: "string \<Rightarrow> Metrics \<Rightarrow> Metrics" where
  "observeDuration ty ms = ms\<lparr> TaskDuration := (TaskDuration ms)(ty := TaskDuration ms ty + 1) \<rparr>"

definition incQueueSize :: "Priority \<Rightarrow> Metrics \<Rightarrow> Metrics" where
  "incQueueSize p ms = ms\<lparr> QueueSize := (QueueSize ms)(p := QueueSize ms p + 1) \<rparr>"

definition decQueueSize :: "Priority \<Rightarrow> Metrics \<Rightarrow> Metrics" where
  "decQueueSize p ms = ms\<lparr> QueueSize := (QueueSize ms)(p := QueueSize ms p - 1) \<rparr>"

text \<open>\<^verbatim>\<open>Submit\<close>: save, count, then a non-blocking send. The result is the error and the new state.\<close>

definition Submit :: "'p Queue \<Rightarrow> 'p Task \<Rightarrow> string option \<times> 'p Queue" where
  "Submit q t =
     (case MemoryStorage_SaveTask (storage q) t of
        (Some err, store) \<Rightarrow> (Some (''failed to save task: '' @ err), q\<lparr> storage := store \<rparr>)
      | (None, store) \<Rightarrow>
          (None, q\<lparr> storage := store,
                    metrics := incQueueSize (Priority t)
                                 (incSubmitted (Type t) (Priority t) (metrics q)),
                    taskChannels := trySend (taskChannels q) (Priority t) t \<rparr>))"

text \<open>
  \<^verbatim>\<open>processTask\<close>. The task is a pointer that the function mutates in place, so the result
  carries the task as the function leaves it, beside the new state. The two clock readings
  are arguments: \<open>nowStart\<close> for \<^verbatim>\<open>MarkStarted\<close>, \<open>nowEnd\<close> for \<^verbatim>\<open>MarkCompleted\<close> and
  \<^verbatim>\<open>MarkFailed\<close>. Errors of \<^verbatim>\<open>UpdateTask\<close> are logged or dropped by the source, so only the
  store it returns is used. The back-off \<^verbatim>\<open>time.Sleep\<close> changes no state. The re-enqueue
  after the sleep is a plain (blocking) send: with no room, or on the nil channel, the worker
  does not return, which is the result \<open>Blocked\<close>.
\<close>

datatype 'p outcome =
    is_Returned: Returned (outQueue: "'p Queue") (outTask: "'p Task")
  | Blocked (outQueue: "'p Queue") (outTask: "'p Task")

definition persist :: "'p Queue \<Rightarrow> 'p Task \<Rightarrow> 'p Queue" where
  "persist q t = q\<lparr> storage := snd (MemoryStorage_UpdateTask (storage q) t) \<rparr>"

definition processTask :: "'p Queue \<Rightarrow> Time \<Rightarrow> Time \<Rightarrow> 'p Task \<Rightarrow> string \<Rightarrow> 'p outcome" where
  "processTask q nowStart nowEnd t workerID =
     (let t1 = MarkStarted nowStart workerID t;
          q1 = persist q t1
      in case handlers q1 (Type t1) of
           None \<Rightarrow>
             (let t2 = MarkFailed nowEnd (''no handler for task type: '' @ Type t1) t1;
                  q2 = persist q1 t2
              in Returned (q2\<lparr> metrics := incProcessed (Type t2) ''failed'' (metrics q2) \<rparr>) t2)
         | Some handler \<Rightarrow>
             (let err = handler (handlerCalls q1) t1;
                  q2 = q1\<lparr> handlerCalls := handlerCalls q1 + 1 \<rparr>;
                  q3 = q2\<lparr> metrics := decQueueSize (Priority t1)
                                         (observeDuration (Type t1) (metrics q2)) \<rparr>
              in case err of
                   Some e \<Rightarrow>
                     (if CanRetry t1 then
                        (let t2 = MarkRetrying t1;
                             q4 = persist q3 t2;
                             q5 = q4\<lparr> metrics := incRetries (Type t2) (metrics q4) \<rparr>
                         in if canSend (taskChannels q5) (Priority t2)
                            then Returned (q5\<lparr> taskChannels :=
                                                send (taskChannels q5) (Priority t2) t2 \<rparr>) t2
                            else Blocked q5 t2)
                      else
                        (let t2 = MarkFailed nowEnd e t1;
                             q4 = persist q3 t2
                         in Returned (q4\<lparr> metrics :=
                                            incProcessed (Type t2) ''failed'' (metrics q4) \<rparr>) t2))
                 | None \<Rightarrow>
                     (let t2 = MarkCompleted nowEnd t1;
                          q4 = persist q3 t2
                      in Returned (q4\<lparr> metrics :=
                                         incProcessed (Type t2) ''completed'' (metrics q4) \<rparr>) t2)))"

text \<open>
  The \<^verbatim>\<open>worker\<close> loop. \<open>receive\<close> is the channel receive of the \<^verbatim>\<open>select\<close>: the oldest
  element of the worker's channel, or \<open>None\<close> when there is nothing to receive and the
  worker waits. One iteration that receives a task processes it. \<open>workerName\<close> is the
  \<^verbatim>\<open>fmt.Sprintf("worker-%d-%d", priority, workerID)\<close> string.
\<close>

definition receive :: "'p Queue \<Rightarrow> Priority \<Rightarrow> ('p Task \<times> 'p Queue) option" where
  "receive q priority =
     (case taskChannels q priority of
        None \<Rightarrow> None
      | Some c \<Rightarrow>
          (case buf c of
             [] \<Rightarrow> None
           | t # rest \<Rightarrow>
               Some (t, q\<lparr> taskChannels := (taskChannels q)(priority \<mapsto> c\<lparr> buf := rest \<rparr>) \<rparr>)))"

definition workerStep ::
  "'p Queue \<Rightarrow> Priority \<Rightarrow> string \<Rightarrow> Time \<Rightarrow> Time \<Rightarrow> 'p outcome option" where
  "workerStep q priority workerName nowStart nowEnd =
     (case receive q priority of
        None \<Rightarrow> None
      | Some (t, q') \<Rightarrow> Some (processTask q' nowStart nowEnd t workerName))"

text \<open>
  The loop itself never ends, so it is run for a number of iterations; \<open>clock k\<close> gives the
  two clock readings of the iteration with \<open>k\<close> iterations to go. \<open>Idle\<close>: the worker waits
  on its empty channel. \<open>Sending\<close>: the worker is blocked in the re-enqueue. \<open>Busy\<close>: the
  iterations are used up with work left in the channel.
\<close>

datatype 'p worker =
    is_Idle: Idle (workerQueue: "'p Queue")
  | Busy (workerQueue: "'p Queue")
  | Sending (workerQueue: "'p Queue")

fun workerRun ::
  "nat \<Rightarrow> (nat \<Rightarrow> Time \<times> Time) \<Rightarrow> Priority \<Rightarrow> string \<Rightarrow> 'p Queue \<Rightarrow> 'p worker" where
  "workerRun 0 clock priority workerName q =
     (if receive q priority = None then Idle q else Busy q)"
| "workerRun (Suc k) clock priority workerName q =
     (case workerStep q priority workerName (fst (clock (Suc k))) (snd (clock (Suc k))) of
        None \<Rightarrow> Idle q
      | Some (Returned q' t') \<Rightarrow> workerRun k clock priority workerName q'
      | Some (Blocked q' t') \<Rightarrow> Sending q')"

definition alwaysFail :: "string \<Rightarrow> 'p TaskHandler" where
  "alwaysFail msg n t = Some msg"

text \<open>
  The task states the engine can produce: a task comes from \<^verbatim>\<open>NewTask\<close>, optionally with the
  positive \<^verbatim>\<open>max_retries\<close> that \<^verbatim>\<open>handleSubmitTask\<close> (or a test) assigns before submitting,
  and is then changed only by the four \<^verbatim>\<open>Mark\<close> operations, \<^verbatim>\<open>MarkRetrying\<close> under the
  \<^verbatim>\<open>CanRetry\<close> test of \<^verbatim>\<open>processTask\<close>.
\<close>

inductive lifecycle :: "'p Task \<Rightarrow> bool" where
  created: "lifecycle (NewTask uuid now taskType priority payload)"
| configured: "0 < m \<Longrightarrow> lifecycle ((NewTask uuid now taskType priority payload)\<lparr> MaxRetries := m \<rparr>)"
| started: "lifecycle t \<Longrightarrow> lifecycle (MarkStarted now workerID t)"
| completed: "lifecycle t \<Longrightarrow> lifecycle (MarkCompleted now t)"
| failed: "lifecycle t \<Longrightarrow> lifecycle (MarkFailed now err t)"
| retrying: "lifecycle t \<Longrightarrow> CanRetry t \<Longrightarrow> lifecycle (MarkRetrying t)"

text \<open>
  \<^verbatim>\<open>pollPendingTasks\<close>: each fetched task is offered to the channel of its priority with a
  non-blocking send, and the loop goes on to the next task whether or not the send succeeded.
  \<open>visitPending\<close> and \<open>visitRetrying\<close> are the map iteration orders of the two store
  queries.
\<close>

fun offerAll :: "(Priority \<rightharpoonup> 'p Task chan) \<Rightarrow> 'p Task list \<Rightarrow> (Priority \<rightharpoonup> 'p Task chan)" where
  "offerAll chans [] = chans"
| "offerAll chans (t # ts) = offerAll (trySend chans (Priority t) t) ts"

text \<open>
  For comparison only, the batch loop as the specification words it: stop at the first task
  whose channel has no room.
\<close>

fun offerUntilFull_spec ::
  "(Priority \<rightharpoonup> 'p Task chan) \<Rightarrow> 'p Task list \<Rightarrow> (Priority \<rightharpoonup> 'p Task chan)" where
  "offerUntilFull_spec chans [] = chans"
| "offerUntilFull_spec chans (t # ts) =
     (if canSend chans (Priority t) then offerUntilFull_spec (send chans (Priority t) t) ts
      else chans)"

definition pollPendingTasks :: "'p Queue \<Rightarrow> string list \<Rightarrow> string list \<Rightarrow> 'p Queue" where
  "pollPendingTasks q visitPending visitRetrying =
     (case MemoryStorage_GetTasksByStatus (storage q) visitPending StatusPending 50 of
        (pending, Some err) \<Rightarrow> q
      | (pending, None) \<Rightarrow>
          (let q1 = q\<lparr> taskChannels := offerAll (taskChannels q) pending \<rparr>
           in case MemoryStorage_GetTasksByStatus (storage q1) visitRetrying StatusRetrying 20 of
                (retryingTasks, None) \<Rightarrow>
                  q1\<lparr> taskChannels := offerAll (taskChannels q1) retryingTasks \<rparr>
              | (retryingTasks, Some err) \<Rightarrow> q1))"



section \<open>server.go: task submission over HTTP\<close>

text \<open>
  The decoded request body of \<^verbatim>\<open>handleSubmitTask\<close>; a field absent from the JSON keeps Go's
  zero value (\<open>0\<close>, the empty string). A body that does not decode is \<open>None\<close>. The response is
  the HTTP status code and the fields of the JSON object written.
\<close>

record 'p SubmitRequest =
  reqType :: string
  reqPriority :: int
  reqPayload :: 'p
  reqMaxRetries :: int

record Response =
  code :: nat
  body :: "(string \<times> string) list"

definition respondError :: "nat \<Rightarrow> string \<Rightarrow> Response" where
  "respondError status message = \<lparr> code = status, body = [(''error'', message)] \<rparr>"

text \<open>The task built from a well-formed request, before it is submitted.\<close>

definition requestTask :: "string \<Rightarrow> Time \<Rightarrow> 'p SubmitRequest \<Rightarrow> 'p Task" where
  "requestTask uuid now req =
     (let priority = (if reqPriority req < PriorityLow \<or> reqPriority req > PriorityCritical
                      then PriorityMedium else reqPriority req);
          t = NewTask uuid now (reqType req) priority (reqPayload req)
      in if reqMaxRetries req > 0 then t\<lparr> MaxRetries := reqMaxRetries req \<rparr> else t)"

definition handleSubmitTask ::
  "'p Queue \<Rightarrow> string \<Rightarrow> Time \<Rightarrow> 'p SubmitRequest option \<Rightarrow> Response \<times> 'p Queue" where
  "handleSubmitTask q uuid now decoded =
     (case decoded of
        None \<Rightarrow> (respondError 400 ''invalid request body'', q)
      | Some req \<Rightarrow>
          if reqType req = [] then (respondError 400 ''task type is required'', q)
          else
            (let t = requestTask uuid now req
             in case Submit q t of
                  (Some err, q') \<Rightarrow> (respondError 500 ''failed to submit task'', q')
                | (None, q') \<Rightarrow>
                    (\<lparr> code = 201, body = [(''task_id'', ID t), (''status'', ''submitted'')] \<rparr>, q')))"

section \<open>task.go: the wire form\<close>

text \<open>
  \<^verbatim>\<open>ToJSON\<close> and \<^verbatim>\<open>FromJSON\<close> are \<^verbatim>\<open>json.Marshal\<close> and \<^verbatim>\<open>json.Unmarshal\<close> on the \<^verbatim>\<open>Task\<close> struct;
  what is the repository's own are the struct tags (the field names and \<^verbatim>\<open>omitempty\<close>) and
  the payload type \<^verbatim>\<open>map[string]interface{}\<close>. The wire form is kept as the JSON value that
  the text denotes. A Go value held in an \<^verbatim>\<open>interface{}\<close> carries its dynamic type; the kinds
  represented are the ones the repository puts into payloads (strings, \<^verbatim>\<open>int\<close>s, nested
  maps) and the ones \<^verbatim>\<open>encoding/json\<close> produces when it decodes into \<^verbatim>\<open>interface{}\<close>: nil,
  \<^verbatim>\<open>bool\<close>, \<^verbatim>\<open>float64\<close>, \<^verbatim>\<open>string\<close>, \<^verbatim>\<open>[]interface{}\<close> and \<^verbatim>\<open>map[string]interface{}\<close>. A
  \<^verbatim>\<open>float64\<close> and a JSON number are represented by the number they denote, a Go map by its
  entries in key order (the order in which \<^verbatim>\<open>json.Marshal\<close> writes them), and strings are
  taken to be valid UTF-8. On these values \<^verbatim>\<open>json.Marshal\<close> does not fail.
\<close>

datatype GoValue =
    GoNil
  | GoBool bool
  | GoInt int
  | GoFloat64 real
  | GoString string
  | GoSlice "GoValue list"
  | GoMap "(string \<times> GoValue) list"


text \<open>The payload field: a nil map is \<open>None\<close>.\<close>

type_synonym Payload = "(string \<times> GoValue) list option"























section \<open>queue_test.go: the fixtures of the permanent-failure test\<close>

text \<open>
  \<^verbatim>\<open>TestQueue_ProcessTask_MaxRetriesExceeded\<close>: a fresh queue over a fresh in-memory store, a
  handler for \<^verbatim>\<open>"test_task"\<close> that always fails, and a high-priority task with
  \<^verbatim>\<open>MaxRetries = 2\<close>. The payload \<^verbatim>\<open>{"key": "value"}\<close> is a list of pairs here.
\<close>

definition testQueue :: "(string \<times> string) list Queue" where
  "testQueue =
     RegisterHandler (NewQueue NewMemoryStorage zeroMetrics) ''test_task''
       (alwaysFail ''permanent failure'')"

definition testTask :: "(string \<times> string) list Task" where
  "testTask =
     (NewTask ''task-1'' 1000 ''test_task'' PriorityHigh [(''key'', ''value'')])\<lparr> MaxRetries := 2 \<rparr>"

definition testClock :: "nat \<Rightarrow> Time \<times> Time" where
  "testClock k = (2000, 3000)"

section \<open>Fixtures: a backlog on the high-priority channel, and an empty Redis\<close>

text \<open>
  Two pending tasks, one high and one low priority, in the store of a fresh queue whose
  high-priority channel already holds its 100 elements.
\<close>

definition pendingHigh :: "(string \<times> string) list Task" where
  "pendingHigh = NewTask ''a'' 1000 ''test_task'' PriorityHigh []"

definition pendingLow :: "(string \<times> string) list Task" where
  "pendingLow = NewTask ''b'' 1000 ''test_task'' PriorityLow []"

definition backlogStore :: "(string \<times> string) list MemoryStorage" where
  "backlogStore =
     snd (MemoryStorage_SaveTask (snd (MemoryStorage_SaveTask NewMemoryStorage pendingHigh))
            pendingLow)"

definition backlogQueue :: "(string \<times> string) list Queue" where
  "backlogQueue =
     (NewQueue backlogStore zeroMetrics)
       \<lparr> taskChannels := (taskChannels (NewQueue backlogStore zeroMetrics))
            (PriorityHigh \<mapsto> \<lparr> cap = 100, buf = replicate 100 pendingHigh \<rparr>) \<rparr>"

text \<open>A reachable Redis server without keys, and the same two tasks saved to it.\<close>

definition emptyRedis :: "'p Redis" where
  "emptyRedis = \<lparr> alive = True, blobs = Map.empty, zsets = (\<lambda>k. []) \<rparr>"

definition backlogRedis :: "(string \<times> string) list Redis" where
  "backlogRedis =
     snd (RedisStorage_SaveTask (snd (RedisStorage_SaveTask emptyRedis pendingLow)) pendingHigh)"

section \<open>Properties\<close>

lemmas Status_defs =
  StatusPending_def StatusProcessing_def StatusCompleted_def StatusFailed_def StatusRetrying_def

lemmas Priority_defs =
  PriorityLow_def PriorityMedium_def PriorityHigh_def PriorityCritical_def

subsection \<open>The four ways through processTask\<close>

lemma processTask_no_handler:
  "handlers q (Type t) = None \<Longrightarrow>
   processTask q a b t w =
     Returned ((persist (persist q (MarkStarted a w t))
                  (MarkFailed b (''no handler for task type: '' @ Type t) (MarkStarted a w t)))
               \<lparr> metrics := incProcessed (Type t) ''failed'' (metrics q) \<rparr>)
       (MarkFailed b (''no handler for task type: '' @ Type t) (MarkStarted a w t))"
  by (simp add: processTask_def Let_def persist_def MarkStarted_def MarkFailed_def)

lemma processTask_retry:
  "handlers q (Type t) = Some h \<Longrightarrow> h (handlerCalls q) (MarkStarted a w t) = Some e \<Longrightarrow>
   RetryCount t < MaxRetries t \<Longrightarrow> canSend (taskChannels q) (Priority t) \<Longrightarrow>
   processTask q a b t w =
     Returned ((persist (persist q (MarkStarted a w t)) (MarkRetrying (MarkStarted a w t)))
               \<lparr> handlerCalls := handlerCalls q + 1,
                 metrics := incRetries (Type t)
                              (decQueueSize (Priority t) (observeDuration (Type t) (metrics q))),
                 taskChannels :=
                   send (taskChannels q) (Priority t) (MarkRetrying (MarkStarted a w t)) \<rparr>)
       (MarkRetrying (MarkStarted a w t))"
  by (simp add: processTask_def Let_def persist_def MarkStarted_def MarkRetrying_def CanRetry_def)

lemma processTask_exhausted:
  "handlers q (Type t) = Some h \<Longrightarrow> h (handlerCalls q) (MarkStarted a w t) = Some e \<Longrightarrow>
   \<not> RetryCount t < MaxRetries t \<Longrightarrow>
   processTask q a b t w =
     Returned ((persist (persist q (MarkStarted a w t)) (MarkFailed b e (MarkStarted a w t)))
               \<lparr> handlerCalls := handlerCalls q + 1,
                 metrics := incProcessed (Type t) ''failed''
                              (decQueueSize (Priority t) (observeDuration (Type t) (metrics q))) \<rparr>)
       (MarkFailed b e (MarkStarted a w t))"
  by (simp add: processTask_def Let_def persist_def MarkStarted_def MarkFailed_def CanRetry_def)

lemma processTask_success:
  "handlers q (Type t) = Some h \<Longrightarrow> h (handlerCalls q) (MarkStarted a w t) = None \<Longrightarrow>
   processTask q a b t w =
     Returned ((persist (persist q (MarkStarted a w t)) (MarkCompleted b (MarkStarted a w t)))
               \<lparr> handlerCalls := handlerCalls q + 1,
                 metrics := incProcessed (Type t) ''completed''
                              (decQueueSize (Priority t) (observeDuration (Type t) (metrics q))) \<rparr>)
       (MarkCompleted b (MarkStarted a w t))"
  by (simp add: processTask_def Let_def persist_def MarkStarted_def MarkCompleted_def CanRetry_def)

lemma processTask_lifecycle:
  "lifecycle t \<Longrightarrow> lifecycle (outTask (processTask q a b t w))"
  by (auto simp: processTask_def Let_def split: option.splits intro: lifecycle.intros)

subsection \<open>Bounded retries\<close>

text \<open>
  Claim C3. In every task state that the engine's lifecycle operations produce from a new
  task, with \<^verbatim>\<open>MarkRetrying\<close> applied only where \<^verbatim>\<open>CanRetry\<close> holds, the retry count is at most
  the maximum number of retries.
\<close>

theorem retry_count_bounded:
  "lifecycle t \<Longrightarrow> RetryCount t \<le> MaxRetries t"
  by (induction t rule: lifecycle.induct)
     (simp_all add: NewTask_def MarkStarted_def MarkCompleted_def MarkFailed_def
        MarkRetrying_def CanRetry_def)

theorem retry_count_bounded_witness:
  "lifecycle (MarkRetrying (MarkStarted 2000 ''worker-2-0'' testTask))
   \<and> RetryCount (MarkRetrying (MarkStarted 2000 ''worker-2-0'' testTask))
       \<le> MaxRetries (MarkRetrying (MarkStarted 2000 ''worker-2-0'' testTask))"
proof -
  have "lifecycle testTask"
    unfolding testTask_def by (rule lifecycle.configured) simp
  then have "lifecycle (MarkStarted 2000 ''worker-2-0'' testTask)"
    by (rule lifecycle.started)
  moreover have "CanRetry (MarkStarted 2000 ''worker-2-0'' testTask)"
    by (simp add: CanRetry_def MarkStarted_def testTask_def NewTask_def)
  ultimately have l: "lifecycle (MarkRetrying (MarkStarted 2000 ''worker-2-0'' testTask))"
    by (rule lifecycle.retrying)
  show ?thesis
    using l retry_count_bounded [OF l] by simp
qed

subsection \<open>The worker loop on a single task\<close>

lemma receive_single:
  "taskChannels q p = Some c \<Longrightarrow> buf c = x # rest \<Longrightarrow>
   receive q p = Some (x, q\<lparr> taskChannels := (taskChannels q)(p \<mapsto> c\<lparr> buf := rest \<rparr>) \<rparr>)"
  by (simp add: receive_def)

lemma receive_empty:
  "taskChannels q p = Some c \<Longrightarrow> buf c = [] \<Longrightarrow> receive q p = None"
  by (simp add: receive_def)

lemma workerStep_retry:
  assumes "taskChannels q p = Some c" "buf c = [x]" "0 < cap c" "Priority x = p"
    and "handlers q (Type x) = Some h" "h (handlerCalls q) (MarkStarted a w x) = Some e"
    and "RetryCount x < MaxRetries x"
  shows "\<exists>q'. workerStep q p w a b = Some (Returned q' (MarkRetrying (MarkStarted a w x)))
           \<and> taskChannels q' = (taskChannels q)(p \<mapsto> c\<lparr> buf := [MarkRetrying (MarkStarted a w x)] \<rparr>)
           \<and> handlers q' = handlers q \<and> handlerCalls q' = handlerCalls q + 1
           \<and> tasks (storage q') (ID x) = Some (MarkRetrying (MarkStarted a w x))
           \<and> metrics q' = incRetries (Type x)
                              (decQueueSize (Priority x) (observeDuration (Type x) (metrics q)))"
proof -
  let ?q0 = "q\<lparr> taskChannels := (taskChannels q)(p \<mapsto> c\<lparr> buf := [] \<rparr>) \<rparr>"
  have r: "receive q p = Some (x, ?q0)"
    using assms(1,2) by (simp add: receive_single)
  have cs: "canSend (taskChannels ?q0) (Priority x)"
    using assms(3,4) by (simp add: canSend_def)
  have pt: "processTask ?q0 a b x w =
     Returned ((persist (persist ?q0 (MarkStarted a w x)) (MarkRetrying (MarkStarted a w x)))
               \<lparr> handlerCalls := handlerCalls ?q0 + 1,
                 metrics := incRetries (Type x)
                              (decQueueSize (Priority x) (observeDuration (Type x) (metrics ?q0))),
                 taskChannels := send (taskChannels ?q0) (Priority x) (MarkRetrying (MarkStarted a w x)) \<rparr>)
       (MarkRetrying (MarkStarted a w x))"
    using assms(5,6,7) cs by (simp add: processTask_retry[where h=h and e=e])
  show ?thesis
    using assms(4)
    by (simp add: workerStep_def r pt persist_def MemoryStorage_UpdateTask_def MemoryStorage_SaveTask_def send_def
          MarkRetrying_def MarkStarted_def)
qed

lemma workerStep_exhausted:
  assumes "taskChannels q p = Some c" "buf c = [x]"
    and "handlers q (Type x) = Some h" "h (handlerCalls q) (MarkStarted a w x) = Some e"
    and "\<not> RetryCount x < MaxRetries x"
  shows "\<exists>q'. workerStep q p w a b = Some (Returned q' (MarkFailed b e (MarkStarted a w x)))
           \<and> taskChannels q' = (taskChannels q)(p \<mapsto> c\<lparr> buf := [] \<rparr>)
           \<and> handlers q' = handlers q \<and> handlerCalls q' = handlerCalls q + 1
           \<and> tasks (storage q') (ID x) = Some (MarkFailed b e (MarkStarted a w x))
           \<and> metrics q' = incProcessed (Type x) ''failed''
                              (decQueueSize (Priority x) (observeDuration (Type x) (metrics q)))"
proof -
  let ?q0 = "q\<lparr> taskChannels := (taskChannels q)(p \<mapsto> c\<lparr> buf := [] \<rparr>) \<rparr>"
  have r: "receive q p = Some (x, ?q0)"
    using assms(1,2) by (simp add: receive_single)
  have pt: "processTask ?q0 a b x w =
     Returned ((persist (persist ?q0 (MarkStarted a w x)) (MarkFailed b e (MarkStarted a w x)))
               \<lparr> handlerCalls := handlerCalls ?q0 + 1,
                 metrics := incProcessed (Type x) ''failed''
                              (decQueueSize (Priority x) (observeDuration (Type x) (metrics ?q0))) \<rparr>)
       (MarkFailed b e (MarkStarted a w x))"
    using assms(3,4,5) by (simp add: processTask_exhausted[where h=h and e=e])
  show ?thesis
    by (simp add: workerStep_def r pt persist_def MemoryStorage_UpdateTask_def MemoryStorage_SaveTask_def
          MarkFailed_def MarkStarted_def)
qed

lemma Submit_room:
  assumes "taskChannels q (Priority t) = Some c" "length (buf c) < cap c"
  shows "Submit q t =
     (None, q\<lparr> storage := (storage q)\<lparr> tasks := (tasks (storage q))(ID t \<mapsto> t) \<rparr>,
               metrics := incQueueSize (Priority t) (incSubmitted (Type t) (Priority t) (metrics q)),
               taskChannels := (taskChannels q)(Priority t \<mapsto> c\<lparr> buf := buf c @ [t] \<rparr>) \<rparr>)"
  using assms
  by (simp add: Submit_def MemoryStorage_SaveTask_def trySend_def canSend_def send_def)

lemma workerStep_no_handler:
  assumes "taskChannels q p = Some c" "buf c = [x]" "handlers q (Type x) = None"
  shows "\<exists>q'. workerStep q p w a b =
             Some (Returned q' (MarkFailed b (''no handler for task type: '' @ Type x) (MarkStarted a w x)))
           \<and> taskChannels q' = (taskChannels q)(p \<mapsto> c\<lparr> buf := [] \<rparr>)
           \<and> handlerCalls q' = handlerCalls q
           \<and> tasks (storage q') (ID x) =
               Some (MarkFailed b (''no handler for task type: '' @ Type x) (MarkStarted a w x))
           \<and> metrics q' = incProcessed (Type x) ''failed'' (metrics q)"
proof -
  let ?q0 = "q\<lparr> taskChannels := (taskChannels q)(p \<mapsto> c\<lparr> buf := [] \<rparr>) \<rparr>"
  have r: "receive q p = Some (x, ?q0)"
    using assms(1,2) by (simp add: receive_single)
  have pt: "processTask ?q0 a b x w =
     Returned ((persist (persist ?q0 (MarkStarted a w x))
                  (MarkFailed b (''no handler for task type: '' @ Type x) (MarkStarted a w x)))
               \<lparr> metrics := incProcessed (Type x) ''failed'' (metrics ?q0) \<rparr>)
       (MarkFailed b (''no handler for task type: '' @ Type x) (MarkStarted a w x))"
    using assms(3) by (simp add: processTask_no_handler)
  show ?thesis
    by (simp add: workerStep_def r pt persist_def MemoryStorage_UpdateTask_def
          MemoryStorage_SaveTask_def MarkFailed_def MarkStarted_def)
qed

lemma always_failing_run:
  assumes chan: "taskChannels q (Priority t) = Some c" and empty: "buf c = []" and room: "0 < cap c"
    and reg: "handlers q (Type t) = Some h" and fail: "\<forall>n x. h n x = Some msg"
    and fresh: "RetryCount t = 0" and two: "MaxRetries t = 2" and fuel: "3 \<le> k"
  shows "fst (Submit q t) = None \<and>
         (\<exists>qf tf. workerRun k clock (Priority t) w (snd (Submit q t)) = Idle qf
            \<and> handlerCalls qf = handlerCalls q + 3
            \<and> tasks (storage qf) (ID t) = Some tf
            \<and> Status tf = StatusFailed \<and> RetryCount tf = 2 \<and> Error tf = msg
            \<and> QueueSize (metrics qf) (Priority t) = QueueSize (metrics q) (Priority t) - 2)"
proof -
  obtain j where k: "k = Suc (Suc (Suc j))"
    using fuel by (metis Suc_le_D numeral_3_eq_3 Suc_le_mono)
  let ?p = "Priority t"
  define q1 where "q1 = snd (Submit q t)"
  have sub: "Submit q t = (None, q1)" and ch1: "taskChannels q1 = (taskChannels q)(?p \<mapsto> c\<lparr> buf := [t] \<rparr>)"
    and h1: "handlers q1 = handlers q" and n1: "handlerCalls q1 = handlerCalls q"
    and m1: "QueueSize (metrics q1) ?p = QueueSize (metrics q) ?p + 1"
    using Submit_room[OF chan, of ] empty room by (simp_all add: q1_def incQueueSize_def incSubmitted_def)
  let ?a1 = "fst (clock k)" and ?b1 = "snd (clock k)"
  let ?t1 = "MarkRetrying (MarkStarted ?a1 w t)"
  have T1: "Type ?t1 = Type t" "Priority ?t1 = ?p" "ID ?t1 = ID t" "RetryCount ?t1 = 1" "MaxRetries ?t1 = 2"
    using fresh two by (simp_all add: MarkRetrying_def MarkStarted_def)
  obtain q2 where s1: "workerStep q1 ?p w ?a1 ?b1 = Some (Returned q2 ?t1)"
    and ch2: "taskChannels q2 = (taskChannels q1)(?p \<mapsto> (c\<lparr> buf := [t] \<rparr>)\<lparr> buf := [?t1] \<rparr>)"
    and h2: "handlers q2 = handlers q1" and n2: "handlerCalls q2 = handlerCalls q1 + 1"
    and m2: "metrics q2 = incRetries (Type t)
                            (decQueueSize ?p (observeDuration (Type t) (metrics q1)))"
    using workerStep_retry[of q1 ?p "c\<lparr> buf := [t] \<rparr>" t h ?a1 w msg ?b1]
      ch1 room reg fail fresh two h1 by auto
  let ?a2 = "fst (clock (Suc (Suc j)))" and ?b2 = "snd (clock (Suc (Suc j)))"
  let ?t2 = "MarkRetrying (MarkStarted ?a2 w ?t1)"
  have T2: "Type ?t2 = Type t" "Priority ?t2 = ?p" "ID ?t2 = ID t" "RetryCount ?t2 = 2" "MaxRetries ?t2 = 2"
    using T1 by (simp_all add: MarkRetrying_def MarkStarted_def)
  obtain q3 where s2: "workerStep q2 ?p w ?a2 ?b2 = Some (Returned q3 ?t2)"
    and ch3: "taskChannels q3 = (taskChannels q2)(?p \<mapsto> (c\<lparr> buf := [?t1] \<rparr>)\<lparr> buf := [?t2] \<rparr>)"
    and h3: "handlers q3 = handlers q2" and n3: "handlerCalls q3 = handlerCalls q2 + 1"
    and m3: "metrics q3 = incRetries (Type ?t1)
                            (decQueueSize (Priority ?t1) (observeDuration (Type ?t1) (metrics q2)))"
    using workerStep_retry[of q2 ?p "c\<lparr> buf := [?t1] \<rparr>" ?t1 h ?a2 w msg ?b2]
      ch2 room reg fail T1 h1 h2 by auto
  let ?a3 = "fst (clock (Suc j))" and ?b3 = "snd (clock (Suc j))"
  let ?t3 = "MarkFailed ?b3 msg (MarkStarted ?a3 w ?t2)"
  obtain q4 where s3: "workerStep q3 ?p w ?a3 ?b3 = Some (Returned q4 ?t3)"
    and ch4: "taskChannels q4 = (taskChannels q3)(?p \<mapsto> (c\<lparr> buf := [?t2] \<rparr>)\<lparr> buf := [] \<rparr>)"
    and n4: "handlerCalls q4 = handlerCalls q3 + 1"
    and st4: "tasks (storage q4) (ID ?t2) = Some ?t3"
    and m4: "metrics q4 = incProcessed (Type ?t2) ''failed''
                            (decQueueSize (Priority ?t2) (observeDuration (Type ?t2) (metrics q3)))"
    using workerStep_exhausted[of q3 ?p "c\<lparr> buf := [?t2] \<rparr>" ?t2 h ?a3 w msg ?b3]
      ch3 reg fail T2 h1 h2 h3 by auto
  have idle: "receive q4 ?p = None"
    using ch4 by (simp add: receive_def)
  have fin: "workerRun j clock ?p w q4 = Idle q4"
    using idle by (cases j) (simp_all add: workerStep_def)
  have run: "workerRun k clock ?p w q1 = Idle q4"
    unfolding k using s1 s2 s3 fin by (simp add: k)
  have "Status ?t3 = StatusFailed" "RetryCount ?t3 = 2" "Error ?t3 = msg"
    using T2 by (simp_all add: MarkFailed_def MarkStarted_def)
  moreover have "fst (Submit q t) = None" "snd (Submit q t) = q1"
    by (simp_all add: sub)
  moreover have "handlerCalls q4 = handlerCalls q + 3" "tasks (storage q4) (ID t) = Some ?t3"
    using st4 T2 n1 n2 n3 n4 by simp_all
  moreover have "QueueSize (metrics q4) ?p = QueueSize (metrics q) ?p - 2"
    using m1 m2 m3 m4 T1 T2
    by (simp add: incProcessed_def incRetries_def decQueueSize_def observeDuration_def)
  ultimately show ?thesis
    using run by simp
qed

lemma missing_handler_run:
  assumes chan: "taskChannels q (Priority t) = Some c" and empty: "buf c = []" and room: "0 < cap c"
    and none: "handlers q (Type t) = None" and fuel: "1 \<le> k"
  shows "fst (Submit q t) = None \<and>
         (\<exists>qf tf. workerRun k clock (Priority t) w (snd (Submit q t)) = Idle qf
            \<and> handlerCalls qf = handlerCalls q
            \<and> tasks (storage qf) (ID t) = Some tf
            \<and> Status tf = StatusFailed \<and> RetryCount tf = RetryCount t
            \<and> Error tf = ''no handler for task type: '' @ Type t
            \<and> QueueSize (metrics qf) (Priority t) = QueueSize (metrics q) (Priority t) + 1)"
proof -
  obtain j where k: "k = Suc j"
    using fuel by (cases k) simp_all
  let ?p = "Priority t"
  define q1 where "q1 = snd (Submit q t)"
  have sub: "Submit q t = (None, q1)"
    and ch1: "taskChannels q1 = (taskChannels q)(?p \<mapsto> c\<lparr> buf := [t] \<rparr>)"
    and h1: "handlers q1 = handlers q" and n1: "handlerCalls q1 = handlerCalls q"
    and m1: "QueueSize (metrics q1) ?p = QueueSize (metrics q) ?p + 1"
    using Submit_room[OF chan] empty room
    by (simp_all add: q1_def incQueueSize_def incSubmitted_def)
  let ?a = "fst (clock k)" and ?b = "snd (clock k)"
  let ?t1 = "MarkFailed ?b (''no handler for task type: '' @ Type t) (MarkStarted ?a w t)"
  obtain q2 where s1: "workerStep q1 ?p w ?a ?b = Some (Returned q2 ?t1)"
    and ch2: "taskChannels q2 = (taskChannels q1)(?p \<mapsto> (c\<lparr> buf := [t] \<rparr>)\<lparr> buf := [] \<rparr>)"
    and n2: "handlerCalls q2 = handlerCalls q1"
    and st2: "tasks (storage q2) (ID t) = Some ?t1"
    and m2: "metrics q2 = incProcessed (Type t) ''failed'' (metrics q1)"
    using workerStep_no_handler[of q1 ?p "c\<lparr> buf := [t] \<rparr>" t w ?a ?b] ch1 none h1 by auto
  have idle: "receive q2 ?p = None"
    using ch2 by (simp add: receive_def)
  have fin: "workerRun j clock ?p w q2 = Idle q2"
    using idle by (cases j) (simp_all add: workerStep_def)
  have run: "workerRun k clock ?p w q1 = Idle q2"
    using s1 fin by (simp add: k)
  have "Status ?t1 = StatusFailed" "RetryCount ?t1 = RetryCount t"
       "Error ?t1 = ''no handler for task type: '' @ Type t"
    by (simp_all add: MarkFailed_def MarkStarted_def)
  moreover have "fst (Submit q t) = None" "snd (Submit q t) = q1"
    by (simp_all add: sub)
  moreover have "QueueSize (metrics q2) ?p = QueueSize (metrics q) ?p + 1"
    using m1 m2 by (simp add: incProcessed_def)
  ultimately show ?thesis
    using run st2 n1 n2 by simp
qed

lemma testQueue_simps:
  "taskChannels testQueue PriorityHigh = Some (makeChan 100)"
  "handlers testQueue ''test_task'' = Some (alwaysFail ''permanent failure'')"
  "handlerCalls testQueue = 0"
  "QueueSize (metrics testQueue) p = 0"
  by (simp_all add: testQueue_def RegisterHandler_def NewQueue_def Priority_defs zeroMetrics_def)

lemma testTask_simps:
  "Priority testTask = PriorityHigh" "Type testTask = ''test_task''" "ID testTask = ''task-1''"
  "RetryCount testTask = 0" "MaxRetries testTask = 2" "Status testTask = StatusPending"
  by (simp_all add: testTask_def NewTask_def)

lemma processTask_final_status:
  "Status (outTask (processTask q a b t w)) \<in> {StatusCompleted, StatusFailed, StatusRetrying}"
  by (simp add: processTask_def Let_def MarkStarted_def MarkFailed_def MarkCompleted_def
        MarkRetrying_def split: option.splits)

subsection \<open>Exhausted retries\<close>




subsection \<open>Terminal statuses\<close>

text \<open>
  Claim C6 as stated fails. The lifecycle operations do not look at the status they overwrite. A completed task that
  is delivered again is moved on by \<^verbatim>\<open>MarkStarted\<close>, and \<^verbatim>\<open>processTask\<close> leaves it
  \<^verbatim>\<open>retrying\<close> when its handler fails.
\<close>

theorem terminal_status_left_counterexample:
  "Status (MarkCompleted 3000 (MarkStarted 2000 ''worker-2-0'' testTask)) = StatusCompleted
   \<and> Status (MarkStarted 4000 ''worker-2-0''
               (MarkCompleted 3000 (MarkStarted 2000 ''worker-2-0'' testTask))) \<noteq> StatusCompleted
   \<and> Status (outTask (processTask testQueue 4000 5000
                (MarkCompleted 3000 (MarkStarted 2000 ''worker-2-0'' testTask)) ''worker-2-0''))
       = StatusRetrying"
proof -
  let ?t = "MarkCompleted 3000 (MarkStarted 2000 ''worker-2-0'' testTask)"
  have 1: "handlers testQueue (Type ?t) = Some (alwaysFail ''permanent failure'')"
    and 2: "alwaysFail ''permanent failure'' (handlerCalls testQueue)
              (MarkStarted 4000 ''worker-2-0'' ?t) = Some ''permanent failure''"
    and 3: "RetryCount ?t < MaxRetries ?t"
    and 4: "canSend (taskChannels testQueue) (Priority ?t)"
    by (simp_all add: testQueue_simps testTask_simps MarkCompleted_def MarkStarted_def
          alwaysFail_def canSend_def makeChan_def)
  have "outTask (processTask testQueue 4000 5000 ?t ''worker-2-0'')
          = MarkRetrying (MarkStarted 4000 ''worker-2-0'' ?t)"
    by (simp only: processTask_retry [OF 1 2 3 4] outcome.sel)
  then show ?thesis
    by (simp add: MarkCompleted_def MarkStarted_def MarkRetrying_def Status_defs)
qed

text \<open>
  Claim C6, amended. Whenever \<^verbatim>\<open>processTask\<close> leaves the task \<^verbatim>\<open>completed\<close> or \<^verbatim>\<open>failed\<close>, it
  returns and every channel holds what it held when \<^verbatim>\<open>processTask\<close> was called: the task is
  not enqueued again.
\<close>

theorem terminal_task_not_requeued:
  "Status (outTask (processTask q a b t w)) \<in> {StatusCompleted, StatusFailed} \<Longrightarrow>
   processTask q a b t w =
     Returned (outQueue (processTask q a b t w)) (outTask (processTask q a b t w))
   \<and> taskChannels (outQueue (processTask q a b t w)) = taskChannels q"
  by (auto simp: processTask_def Let_def persist_def MarkRetrying_def Status_defs
        split: option.splits if_splits)

theorem terminal_task_not_requeued_witness:
  "Status (outTask (processTask testQueue 2000 3000 (testTask\<lparr> RetryCount := 2 \<rparr>) ''worker-2-0''))
     \<in> {StatusCompleted, StatusFailed}
   \<and> processTask testQueue 2000 3000 (testTask\<lparr> RetryCount := 2 \<rparr>) ''worker-2-0'' =
       Returned (outQueue (processTask testQueue 2000 3000 (testTask\<lparr> RetryCount := 2 \<rparr>) ''worker-2-0''))
         (outTask (processTask testQueue 2000 3000 (testTask\<lparr> RetryCount := 2 \<rparr>) ''worker-2-0''))
   \<and> taskChannels (outQueue (processTask testQueue 2000 3000 (testTask\<lparr> RetryCount := 2 \<rparr>)
                                 ''worker-2-0'')) = taskChannels testQueue"
proof -
  let ?t = "testTask\<lparr> RetryCount := 2 \<rparr>"
  have 1: "handlers testQueue (Type ?t) = Some (alwaysFail ''permanent failure'')"
    and 2: "alwaysFail ''permanent failure'' (handlerCalls testQueue)
              (MarkStarted 2000 ''worker-2-0'' ?t) = Some ''permanent failure''"
    and 3: "\<not> RetryCount ?t < MaxRetries ?t"
    by (simp_all add: testQueue_simps testTask_simps alwaysFail_def)
  have "outTask (processTask testQueue 2000 3000 ?t ''worker-2-0'')
          = MarkFailed 3000 ''permanent failure'' (MarkStarted 2000 ''worker-2-0'' ?t)"
    by (simp only: processTask_exhausted [OF 1 2 3] outcome.sel)
  then have h: "Status (outTask (processTask testQueue 2000 3000 ?t ''worker-2-0''))
                  \<in> {StatusCompleted, StatusFailed}"
    by (simp add: MarkFailed_def)
  show ?thesis
    using h terminal_task_not_requeued [OF h] by simp
qed

subsection \<open>Validation at submission\<close>

text \<open>
  Claim C7 as stated fails. \<^verbatim>\<open>Queue.Submit\<close> checks nothing: a task with the empty type is
  saved and no error comes back.
\<close>

theorem submit_does_not_validate_counterexample:
  "Type (NewTask ''task-2'' 1000 [] PriorityMedium [(''key'', ''value'')]) = []
   \<and> fst (Submit testQueue (NewTask ''task-2'' 1000 [] PriorityMedium [(''key'', ''value'')])) = None
   \<and> tasks (storage (snd (Submit testQueue
               (NewTask ''task-2'' 1000 [] PriorityMedium [(''key'', ''value'')])))) ''task-2''
       = Some (NewTask ''task-2'' 1000 [] PriorityMedium [(''key'', ''value'')])"
  by (simp add: Submit_def MemoryStorage_SaveTask_def NewTask_def)

text \<open>
  Claim C7, amended. The check is in \<^verbatim>\<open>handleSubmitTask\<close>: a request with an empty type is
  answered with status 400 and the message \<^verbatim>\<open>task type is required\<close>, and the queue, its
  store included, is left as it was.
\<close>

theorem empty_type_rejected_by_handler:
  "reqType req = [] \<Longrightarrow>
   handleSubmitTask q uuid now (Some req) = (respondError 400 ''task type is required'', q)"
  by (simp add: handleSubmitTask_def)

theorem empty_type_rejected_by_handler_witness:
  "reqType \<lparr> reqType = [], reqPriority = 2, reqPayload = [(''key'', ''value'')], reqMaxRetries = 0 \<rparr> = []
   \<and> handleSubmitTask testQueue ''task-3'' 1000
        (Some \<lparr> reqType = [], reqPriority = 2, reqPayload = [(''key'', ''value'')], reqMaxRetries = 0 \<rparr>)
       = (respondError 400 ''task type is required'', testQueue)"
  using empty_type_rejected_by_handler
    [of "\<lparr> reqType = [], reqPriority = 2, reqPayload = [(''key'', ''value'')], reqMaxRetries = 0 \<rparr>"
        testQueue "''task-3''" 1000]
  by simp

subsection \<open>The queue-size gauge\<close>

text \<open>
  Claim C8, evaluated. The task of the permanent-failure test is submitted (one increment)
  and fails three times: the gauge of its priority ends at \<open>-2\<close>, one decrement per handler
  invocation. With no handler registered the task fails at once and the gauge stays at
  \<open>1\<close>.
\<close>

theorem queue_size_gauge_drifts:
  "is_Idle (workerRun 3 testClock PriorityHigh ''worker-2-0'' (snd (Submit testQueue testTask)))
   \<and> map_option Status
        (tasks (storage (workerQueue (workerRun 3 testClock PriorityHigh ''worker-2-0''
                                        (snd (Submit testQueue testTask))))) ''task-1'')
       = Some StatusFailed
   \<and> QueueSize (metrics (workerQueue (workerRun 3 testClock PriorityHigh ''worker-2-0''
                                        (snd (Submit testQueue testTask))))) PriorityHigh = - 2
   \<and> is_Idle (workerRun 1 testClock PriorityHigh ''worker-2-0''
                (snd (Submit (NewQueue NewMemoryStorage zeroMetrics) testTask)))
   \<and> map_option Status
        (tasks (storage (workerQueue (workerRun 1 testClock PriorityHigh ''worker-2-0''
                   (snd (Submit (NewQueue NewMemoryStorage zeroMetrics) testTask))))) ''task-1'')
       = Some StatusFailed
   \<and> QueueSize (metrics (workerQueue (workerRun 1 testClock PriorityHigh ''worker-2-0''
                   (snd (Submit (NewQueue NewMemoryStorage zeroMetrics) testTask))))) PriorityHigh = 1"
proof -
  have a: "\<forall>n x. alwaysFail ''permanent failure'' n (x :: (string \<times> string) list Task)
               = Some ''permanent failure''"
    by (simp add: alwaysFail_def)
  have "taskChannels testQueue (Priority testTask) = Some (makeChan 100)"
       "handlers testQueue (Type testTask) = Some (alwaysFail ''permanent failure'')"
    by (simp_all add: testQueue_simps testTask_simps)
  from always_failing_run [OF this(1) _ _ this(2) a, of 3 testClock "''worker-2-0''"]
  have 1: "\<exists>qf tf. workerRun 3 testClock PriorityHigh ''worker-2-0''
                      (snd (Submit testQueue testTask)) = Idle qf
             \<and> tasks (storage qf) ''task-1'' = Some tf \<and> Status tf = StatusFailed
             \<and> QueueSize (metrics qf) PriorityHigh = - 2"
    by (simp add: makeChan_def testTask_simps testQueue_simps) blast
  let ?q0 = "NewQueue NewMemoryStorage zeroMetrics :: (string \<times> string) list Queue"
  have "taskChannels ?q0 (Priority testTask) = Some (makeChan 100)"
       "handlers ?q0 (Type testTask) = None"
    by (simp_all add: NewQueue_def testTask_simps Priority_defs)
  from missing_handler_run [OF this(1) _ _ this(2), of 1 testClock "''worker-2-0''"]
  have 2: "\<exists>qf tf. workerRun 1 testClock PriorityHigh ''worker-2-0''
                      (snd (Submit ?q0 testTask)) = Idle qf
             \<and> tasks (storage qf) ''task-1'' = Some tf \<and> Status tf = StatusFailed
             \<and> QueueSize (metrics qf) PriorityHigh = 1"
    by (simp add: makeChan_def testTask_simps NewQueue_def zeroMetrics_def) blast
  from 1 2 show ?thesis
    by (elim exE conjE) simp
qed

subsection \<open>Defaults at the HTTP surface\<close>

text \<open>
  Claim C10. A request with a non-empty type is accepted with status 201 and the task stored
  under the new id has priority \<^verbatim>\<open>Medium\<close> when the requested priority lies outside 0..3
  (the requested priority otherwise), and \<^verbatim>\<open>max_retries\<close> 3 unless the requested value is
  greater than 0, which then is taken.
\<close>

theorem submission_defaults:
  "reqType req \<noteq> [] \<Longrightarrow>
   fst (handleSubmitTask q uuid now (Some req))
     = \<lparr> code = 201, body = [(''task_id'', uuid), (''status'', ''submitted'')] \<rparr>
   \<and> tasks (storage (snd (handleSubmitTask q uuid now (Some req)))) uuid
       = Some (requestTask uuid now req)
   \<and> Priority (requestTask uuid now req)
       = (if reqPriority req < 0 \<or> 3 < reqPriority req then PriorityMedium else reqPriority req)
   \<and> MaxRetries (requestTask uuid now req)
       = (if 0 < reqMaxRetries req then reqMaxRetries req else 3)"
  by (simp add: handleSubmitTask_def Let_def Submit_def MemoryStorage_SaveTask_def
        requestTask_def NewTask_def Priority_defs)

theorem submission_defaults_witness:
  "reqType \<lparr> reqType = ''send_email'', reqPriority = 7, reqPayload = [(''key'', ''value'')],
             reqMaxRetries = - 1 \<rparr> \<noteq> []
   \<and> fst (handleSubmitTask testQueue ''task-4'' 1000
            (Some \<lparr> reqType = ''send_email'', reqPriority = 7, reqPayload = [(''key'', ''value'')],
                    reqMaxRetries = - 1 \<rparr>))
       = \<lparr> code = 201, body = [(''task_id'', ''task-4''), (''status'', ''submitted'')] \<rparr>
   \<and> map_option Priority
        (tasks (storage (snd (handleSubmitTask testQueue ''task-4'' 1000
            (Some \<lparr> reqType = ''send_email'', reqPriority = 7, reqPayload = [(''key'', ''value'')],
                    reqMaxRetries = - 1 \<rparr>)))) ''task-4'') = Some PriorityMedium
   \<and> map_option MaxRetries
        (tasks (storage (snd (handleSubmitTask testQueue ''task-4'' 1000
            (Some \<lparr> reqType = ''send_email'', reqPriority = 7, reqPayload = [(''key'', ''value'')],
                    reqMaxRetries = - 1 \<rparr>)))) ''task-4'') = Some 3"
  using submission_defaults
    [of "\<lparr> reqType = ''send_email'', reqPriority = 7, reqPayload = [(''key'', ''value'')],
           reqMaxRetries = - 1 \<rparr>" testQueue "''task-4''" 1000]
  by simp

subsection \<open>The poller\<close>

lemma rangeByStatus_take:
  "int (length acc) < limit \<Longrightarrow>
   rangeByStatus ts s limit acc
     = acc @ take (nat limit - length acc) (filter (\<lambda>t. Status t = s) ts)"
proof (induction ts arbitrary: acc)
  case Nil
  then show ?case by simp
next
  case (Cons t ts)
  show ?case
  proof (cases "Status t = s")
    case False
    with Cons show ?thesis by simp
  next
    case True
    show ?thesis
    proof (cases "limit \<le> int (length acc) + 1")
      case full: True
      with Cons.prems have "nat limit - length acc = 1" by linarith
      with True full show ?thesis by simp
    next
      case more: False
      then have "int (length (acc @ [t])) < limit" by simp
      from Cons.IH [OF this] True more Cons.prems show ?thesis
        by (simp add: take_Cons' nat_diff_distrib Suc_diff_le) 
    qed
  qed
qed

lemma GetTasksByStatus_take:
  "1 \<le> limit \<Longrightarrow>
   fst (MemoryStorage_GetTasksByStatus m visit s limit)
     = take (nat limit) (filter (\<lambda>t. Status t = s) (List.map_filter (tasks m) visit))"
  by (simp add: MemoryStorage_GetTasksByStatus_def rangeByStatus_take)

lemma trySend_apply:
  "trySend chans p x p' =
     (if p' = p then map_option (\<lambda>c. if length (buf c) < cap c then c\<lparr> buf := buf c @ [x] \<rparr> else c) (chans p)
      else chans p')"
  by (auto simp: trySend_def canSend_def send_def split: option.splits)

lemma offerAll_apply:
  "offerAll chans ts p =
     map_option (\<lambda>c. c\<lparr> buf := buf c @ take (cap c - length (buf c)) (filter (\<lambda>t. Priority t = p) ts) \<rparr>)
       (chans p)"
proof (induction ts arbitrary: chans)
  case Nil
  show ?case by (cases "chans p") simp_all
next
  case (Cons t ts)
  show ?case
  proof (cases "chans p")
    case None
    then show ?thesis by (auto simp: Cons.IH trySend_apply)
  next
    case (Some c)
    show ?thesis
    proof (cases "Priority t = p")
      case False
      with Some show ?thesis by (simp add: Cons.IH trySend_apply)
    next
      case True
      show ?thesis
      proof (cases "length (buf c) < cap c")
        case room: True
        then have "cap c - length (buf c) = Suc (cap c - Suc (length (buf c)))" by simp
        with Some True room show ?thesis by (simp add: Cons.IH trySend_apply)
      next
        case full: False
        with Some True show ?thesis by (simp add: Cons.IH trySend_apply)
      qed
    qed
  qed
qed

lemma offerAll_append: "offerAll chans (xs @ ys) = offerAll (offerAll chans xs) ys"
  by (induction xs arbitrary: chans) simp_all

lemmas fixture_defs =
  backlogQueue_def backlogStore_def pendingHigh_def pendingLow_def NewQueue_def
  NewMemoryStorage_def MemoryStorage_SaveTask_def NewTask_def

lemma backlog_pending:
  "fst (MemoryStorage_GetTasksByStatus (storage backlogQueue) [''a'', ''b''] StatusPending 50)
     = [pendingHigh, pendingLow]"
  "fst (MemoryStorage_GetTasksByStatus (storage backlogQueue) [''a'', ''b''] StatusRetrying 20) = []"
  by (simp_all add: MemoryStorage_GetTasksByStatus_def fixture_defs
        Status_defs)

lemma pollPendingTasks_channels:
  "taskChannels (pollPendingTasks q visitPending visitRetrying)
     = offerAll (taskChannels q)
         (fst (MemoryStorage_GetTasksByStatus (storage q) visitPending StatusPending 50)
          @ fst (MemoryStorage_GetTasksByStatus (storage q) visitRetrying StatusRetrying 20))"
  by (simp add: pollPendingTasks_def Let_def MemoryStorage_GetTasksByStatus_def offerAll_append)

text \<open>
  Claim C2 as stated fails. With the high-priority channel full, the first offer of the batch fails, and the poller
  still puts the low-priority task that follows it on the low-priority channel; a loop that
  stopped at the first failure would have left that channel empty.
\<close>

theorem poller_continues_after_full_counterexample:
  "fst (MemoryStorage_GetTasksByStatus (storage backlogQueue) [''a'', ''b''] StatusPending 50)
     = [pendingHigh, pendingLow]
   \<and> \<not> canSend (taskChannels backlogQueue) (Priority pendingHigh)
   \<and> map_option buf (taskChannels (pollPendingTasks backlogQueue [''a'', ''b''] [''a'', ''b''])
                        PriorityLow) = Some [pendingLow]
   \<and> map_option buf (offerUntilFull_spec (taskChannels backlogQueue) [pendingHigh, pendingLow]
                        PriorityLow) = Some []"
proof -
  have full: "\<not> canSend (taskChannels backlogQueue) (Priority pendingHigh)"
    by (simp add: canSend_def backlogQueue_def pendingHigh_def NewTask_def)
  have low: "taskChannels backlogQueue PriorityLow = Some (makeChan 100)"
    by (simp add: backlogQueue_def NewQueue_def Priority_defs)
  have "taskChannels (pollPendingTasks backlogQueue [''a'', ''b''] [''a'', ''b''])
          = offerAll (taskChannels backlogQueue) [pendingHigh, pendingLow]"
    by (simp only: pollPendingTasks_channels backlog_pending append_Nil2)
  then have "map_option buf (taskChannels (pollPendingTasks backlogQueue [''a'', ''b''] [''a'', ''b''])
                        PriorityLow) = Some [pendingLow]"
    using low by (simp add: offerAll_apply makeChan_def pendingHigh_def pendingLow_def NewTask_def
                    Priority_defs del: offerAll.simps)
  moreover have "map_option buf (offerUntilFull_spec (taskChannels backlogQueue)
                    [pendingHigh, pendingLow] PriorityLow) = Some []"
    using full low by (simp add: makeChan_def)
  ultimately show ?thesis
    using full backlog_pending(1) by simp
qed

text \<open>
  Claim C2, amended. A poll fetches at most 50 pending and at most 20 retrying tasks and
  offers every one of them, in the order fetched, to the channel of its priority: each
  channel receives the tasks of its priority until it is full, whatever happened to the
  tasks offered before.
\<close>

theorem poller_offers_every_task:
  assumes "taskChannels q p = Some c"
  shows "taskChannels (pollPendingTasks q visitPending visitRetrying) p
           = Some (c\<lparr> buf := buf c @ take (cap c - length (buf c))
                     (filter (\<lambda>t. Priority t = p)
                        (fst (MemoryStorage_GetTasksByStatus (storage q) visitPending StatusPending 50)
                         @ fst (MemoryStorage_GetTasksByStatus (storage q) visitRetrying
                                  StatusRetrying 20))) \<rparr>)
         \<and> length (fst (MemoryStorage_GetTasksByStatus (storage q) visitPending StatusPending 50))
             \<le> 50
         \<and> length (fst (MemoryStorage_GetTasksByStatus (storage q) visitRetrying StatusRetrying 20))
             \<le> 20"
proof -
  let ?ps = "fst (MemoryStorage_GetTasksByStatus (storage q) visitPending StatusPending 50)"
  let ?rs = "fst (MemoryStorage_GetTasksByStatus (storage q) visitRetrying StatusRetrying 20)"
  have "taskChannels (pollPendingTasks q visitPending visitRetrying)
          = offerAll (taskChannels q) (?ps @ ?rs)"
    by (rule pollPendingTasks_channels)
  moreover have "length ?ps \<le> 50" "length ?rs \<le> 20"
    by (simp_all add: GetTasksByStatus_take)
  ultimately show ?thesis
    using assms by (simp add: offerAll_apply)
qed

theorem poller_offers_every_task_witness:
  "taskChannels backlogQueue PriorityLow = Some (makeChan 100)
   \<and> taskChannels (pollPendingTasks backlogQueue [''a'', ''b''] [''a'', ''b'']) PriorityLow
       = Some \<lparr> cap = 100, buf = [pendingLow] \<rparr>"
proof -
  have low: "taskChannels backlogQueue PriorityLow = Some (makeChan 100)"
    by (simp add: backlogQueue_def NewQueue_def Priority_defs)
  show ?thesis
    using low poller_offers_every_task [OF low, of "[''a'', ''b'']" "[''a'', ''b'']"]
    by (simp add: backlog_pending makeChan_def pendingHigh_def pendingLow_def NewTask_def
          Priority_defs)
qed

subsection \<open>Deleting a task\<close>

lemma RedisStorage_DeleteTask_absent:
  "alive r \<Longrightarrow> blobs r (taskKey i) = None \<Longrightarrow>
   RedisStorage_DeleteTask r i = (Some (''task not found: '' @ i), r)"
  by (simp add: RedisStorage_DeleteTask_def RedisStorage_GetTask_def)

lemma RedisStorage_DeleteTask_present:
  "RedisStorage_GetTask r i = Inr t \<Longrightarrow>
   RedisStorage_DeleteTask r i =
     (None, r\<lparr> blobs := (blobs r)(taskKey i := None),
               zsets := (zsets r)(statusKey (Status t) := ZRem (zsets r (statusKey (Status t))) i) \<rparr>)"
  by (simp add: RedisStorage_DeleteTask_def)

lemma RedisStorage_DeleteTask_state_idempotent:
  "snd (RedisStorage_DeleteTask (snd (RedisStorage_DeleteTask r i)) i)
     = snd (RedisStorage_DeleteTask r i)"
  by (auto simp: RedisStorage_DeleteTask_def RedisStorage_GetTask_def
        split: sum.splits option.splits if_splits)

lemma backlogRedis_simps:
  "alive backlogRedis"
  "blobs backlogRedis (taskKey ''a'') = Some pendingHigh"
  "blobs backlogRedis (taskKey ''b'') = Some pendingLow"
  "zsets backlogRedis (statusKey StatusPending) = [(''a'', 2000000), (''b'', 0)]"
  by (simp_all add: backlogRedis_def emptyRedis_def RedisStorage_SaveTask_def ZAdd_def
        schedScore_def Unix_def pendingHigh_def pendingLow_def NewTask_def taskKey_def
        statusKey_def Priority_defs)

text \<open>
  Claim C5 as stated fails for the Redis store: \<^verbatim>\<open>RedisStorage.DeleteTask\<close> looks the task up
  first and returns the lookup's error, so deleting an id that is not stored does not succeed.
\<close>

theorem redis_delete_absent_counterexample:
  "RedisStorage_GetTask (emptyRedis :: (string \<times> string) list Redis) ''task-1''
     = Inl ''task not found: task-1''
   \<and> fst (RedisStorage_DeleteTask (emptyRedis :: (string \<times> string) list Redis) ''task-1'')
       = Some ''task not found: task-1''"
  by (simp add: RedisStorage_DeleteTask_def RedisStorage_GetTask_def emptyRedis_def)

text \<open>
  Claim C5, amended. In the in-memory store a delete always succeeds and leaves no task under
  the id; a second delete succeeds and changes nothing. In the Redis store the delete of a
  stored task succeeds and removes its blob and its entry in the index of its status; a
  second delete changes nothing either, but returns the error \<^verbatim>\<open>task not found\<close>.
\<close>

theorem delete_task_twice:
  assumes "RedisStorage_GetTask r i = Inr t"
  shows "fst (MemoryStorage_DeleteTask m i) = None
       \<and> tasks (snd (MemoryStorage_DeleteTask m i)) i = None
       \<and> MemoryStorage_DeleteTask (snd (MemoryStorage_DeleteTask m i)) i
           = (None, snd (MemoryStorage_DeleteTask m i))
       \<and> fst (RedisStorage_DeleteTask r i) = None
       \<and> blobs (snd (RedisStorage_DeleteTask r i)) (taskKey i) = None
       \<and> i \<notin> fst ` set (zsets (snd (RedisStorage_DeleteTask r i)) (statusKey (Status t)))
       \<and> RedisStorage_DeleteTask (snd (RedisStorage_DeleteTask r i)) i
           = (Some (''task not found: '' @ i), snd (RedisStorage_DeleteTask r i))"
proof -
  have up: "alive r"
    using assms by (auto simp: RedisStorage_GetTask_def split: if_splits)
  have del: "RedisStorage_DeleteTask r i =
     (None, r\<lparr> blobs := (blobs r)(taskKey i := None),
               zsets := (zsets r)(statusKey (Status t) := ZRem (zsets r (statusKey (Status t))) i) \<rparr>)"
    using assms by (rule RedisStorage_DeleteTask_present)
  have again: "RedisStorage_DeleteTask (snd (RedisStorage_DeleteTask r i)) i
           = (Some (''task not found: '' @ i), snd (RedisStorage_DeleteTask r i))"
    by (rule RedisStorage_DeleteTask_absent) (simp_all add: del up)
  have "i \<notin> fst ` set (ZRem (zsets r (statusKey (Status t))) i)"
    by (auto simp: ZRem_def)
  then show ?thesis
    using again by (simp add: del MemoryStorage_DeleteTask_def)
qed

theorem delete_task_twice_witness:
  "RedisStorage_GetTask backlogRedis ''a'' = Inr pendingHigh
   \<and> MemoryStorage_DeleteTask (snd (MemoryStorage_DeleteTask backlogStore ''a'')) ''a''
       = (None, snd (MemoryStorage_DeleteTask backlogStore ''a''))
   \<and> fst (RedisStorage_DeleteTask backlogRedis ''a'') = None
   \<and> RedisStorage_DeleteTask (snd (RedisStorage_DeleteTask backlogRedis ''a'')) ''a''
       = (Some ''task not found: a'', snd (RedisStorage_DeleteTask backlogRedis ''a''))"
proof -
  have g: "RedisStorage_GetTask backlogRedis ''a'' = Inr pendingHigh"
    by (simp add: RedisStorage_GetTask_def backlogRedis_simps)
  show ?thesis
    using g delete_task_twice [OF g, of backlogStore]
    by simp
qed

subsection \<open>Tasks by status\<close>

text \<open>
  Claim C1, evaluated. The in-memory store holds a high and a low priority pending task and
  the map iteration visits the low one first: the query returns them in that order, the
  lower score first. With limit 0 it returns one task. The Redis store returns the two
  tasks with the higher score first; with limit 0 it returns both.
\<close>

theorem memory_store_order_and_limit:
  "iteration_of backlogStore [''b'', ''a'']
   \<and> fst (MemoryStorage_GetTasksByStatus backlogStore [''b'', ''a''] StatusPending 2)
       = [pendingLow, pendingHigh]
   \<and> schedScore pendingLow < schedScore pendingHigh
   \<and> fst (MemoryStorage_GetTasksByStatus backlogStore [''b'', ''a''] StatusPending 0)
       = [pendingLow]
   \<and> RedisStorage_GetTasksByStatus backlogRedis StatusPending 2 = Inr [pendingHigh, pendingLow]
   \<and> RedisStorage_GetTasksByStatus backlogRedis StatusPending 0 = Inr [pendingHigh, pendingLow]"
proof -
  have "iteration_of backlogStore [''b'', ''a'']"
    by (auto simp: iteration_of_def backlogStore_def MemoryStorage_SaveTask_def
          NewMemoryStorage_def pendingHigh_def pendingLow_def NewTask_def)
  moreover have "List.map_filter (tasks backlogStore) [''b'', ''a''] = [pendingLow, pendingHigh]"
    by (simp add: List.map_filter_simps backlogStore_def MemoryStorage_SaveTask_def
          NewMemoryStorage_def pendingHigh_def pendingLow_def NewTask_def)
  then have "fst (MemoryStorage_GetTasksByStatus backlogStore [''b'', ''a''] StatusPending 2)
               = [pendingLow, pendingHigh]"
        "fst (MemoryStorage_GetTasksByStatus backlogStore [''b'', ''a''] StatusPending 0)
               = [pendingLow]"
    by (simp_all add: MemoryStorage_GetTasksByStatus_def pendingHigh_def pendingLow_def NewTask_def)
  moreover have "schedScore pendingLow < schedScore pendingHigh"
    by (simp add: schedScore_def pendingHigh_def pendingLow_def NewTask_def Priority_defs)
  moreover have "ZRevRange (zsets backlogRedis (statusKey StatusPending)) 0 1 = [''a'', ''b'']"
      "ZRevRange (zsets backlogRedis (statusKey StatusPending)) 0 (- 1) = [''a'', ''b'']"
    by (simp_all add: backlogRedis_simps ZRevRange_def Let_def)
  then have "RedisStorage_GetTasksByStatus backlogRedis StatusPending 2 = Inr [pendingHigh, pendingLow]"
    "RedisStorage_GetTasksByStatus backlogRedis StatusPending 0 = Inr [pendingHigh, pendingLow]"
    by (simp_all add: RedisStorage_GetTasksByStatus_def RedisStorage_GetTask_def
          backlogRedis_simps List.map_filter_simps)
  ultimately show ?thesis by simp
qed

subsection \<open>The wire form\<close>






end
